theory Spec2Isabelle
  imports Main
begin

section \<open>Python strings\<close>

text \<open>
  A Python \<^verbatim>\<open>str\<close> is a sequence of Unicode code points; the uploaded file is decoded
  from UTF-8 before any of the code below sees it. A code point is a natural number.
\<close>

type_synonym ustr = "nat list"

definition ustr_of :: "string \<Rightarrow> ustr" where
  "ustr_of s = map of_char s"

text \<open>
  The characters \<^verbatim>\<open>str.strip()\<close> removes when called without an argument: the code
  points for which \<^verbatim>\<open>str.isspace\<close> holds.
\<close>

definition isspace :: "nat \<Rightarrow> bool" where
  "isspace c \<longleftrightarrow>
     (9 \<le> c \<and> c \<le> 13) \<or> (28 \<le> c \<and> c \<le> 32) \<or> c = 133 \<or> c = 160 \<or> c = 5760 \<or>
     (8192 \<le> c \<and> c \<le> 8202) \<or> c = 8232 \<or> c = 8233 \<or> c = 8239 \<or> c = 8287 \<or> c = 12288"

definition str_strip :: "ustr \<Rightarrow> ustr" where
  "str_strip s = rev (dropWhile isspace (rev (dropWhile isspace s)))"

text \<open>
  \<^verbatim>\<open>s.split(sep)\<close> for a separator of one character: always at least one field, and one
  more field than there are separators.
\<close>

fun str_split :: "nat \<Rightarrow> ustr \<Rightarrow> ustr list" where
  "str_split sep [] = [[]]"
| "str_split sep (c # cs) =
     (if c = sep then [] # str_split sep cs
      else (case str_split sep cs of
              [] \<Rightarrow> [[c]]
            | l # ls \<Rightarrow> (c # l) # ls))"

text \<open>\<^verbatim>\<open>sep.join(xs)\<close> for a list of strings.\<close>

fun str_join :: "ustr \<Rightarrow> ustr list \<Rightarrow> ustr" where
  "str_join sep [] = []"
| "str_join sep [x] = x"
| "str_join sep (x # y # ys) = x @ sep @ str_join sep (y # ys)"

text \<open>The decimal rendering of a non-negative integer, as an f-string interpolates it.\<close>

fun str_nat :: "nat \<Rightarrow> ustr" where
  "str_nat n = (if n < 10 then [48 + n] else str_nat (n div 10) @ [48 + n mod 10])"

declare str_nat.simps [simp del]

definition newline :: nat where
  "newline = 10"

definition hyphen :: nat where
  "hyphen = 45"

section \<open>Metadata\<close>

text \<open>
  The values a metadata dictionary of this program holds: the upload handler writes a
  string under \<^verbatim>\<open>source\<close> and an integer under \<^verbatim>\<open>line\<close>; the chat handler reads
  \<^verbatim>\<open>line\<close> and \<^verbatim>\<open>text\<close>.
\<close>

datatype pyval = PyInt int | PyStr ustr

type_synonym metadata = "ustr \<rightharpoonup> pyval"

definition key_source :: ustr where
  "key_source = ustr_of ''source''"

definition key_line :: ustr where
  "key_line = ustr_of ''line''"

definition key_text :: ustr where
  "key_text = ustr_of ''text''"

section \<open>The upload handler: chunking\<close>

text \<open>
  \<^verbatim>\<open>texts = [line.strip() for line in file_content.split('\n') if line.strip()]\<close>
\<close>

definition chunk_texts :: "ustr \<Rightarrow> ustr list" where
  "chunk_texts file_content =
     [str_strip line. line \<leftarrow> str_split newline file_content, str_strip line \<noteq> []]"

text \<open>
  \<^verbatim>\<open>metadata_list = [{"source": uploaded_file.name, "line": i} for i, _ in enumerate(texts)]\<close>
\<close>

definition chunk_metadata :: "ustr \<Rightarrow> ustr list \<Rightarrow> metadata list" where
  "chunk_metadata file_name texts =
     [[key_source \<mapsto> PyStr file_name, key_line \<mapsto> PyInt (int i)]. i \<leftarrow> [0..<length texts]]"

section \<open>Exceptions, user-interface output and calls to the hosted services\<close>

text \<open>
  The exceptions that matter to the script: the three Python raises itself on the paths
  below, and whatever a call into one of the two SDKs raises (told apart by its message).
\<close>

datatype exn = IndexError | TypeError | AttributeError | ServiceError ustr

text \<open>
  The messages the script shows, one constructor for each message template of the source,
  carrying what the template interpolates.
\<close>

datatype msg =
    Pinecone_uninit_upload  \<comment> \<open>Pinecone belum diinisialisasi. Tidak dapat mengunggah.\<close>
  | Creating_index ustr  \<comment> \<open>Membuat indeks Pinecone '{index_name}'...\<close>
  | Embedding_failed exn  \<comment> \<open>Gagal mendapatkan embedding: {e}\<close>
  | Upsert_ok nat ustr  \<comment> \<open>Berhasil mengunggah {len} vektor ke Pinecone indeks '{index_name}'.\<close>
  | Upsert_failed exn  \<comment> \<open>Gagal mengunggah ke Pinecone: {e}\<close>
  | Pinecone_uninit_query  \<comment> \<open>Pinecone belum diinisialisasi. Tidak dapat melakukan pencarian.\<close>
  | Index_not_found ustr  \<comment> \<open>Indeks '{index_name}' tidak ditemukan.\<close>
  | Query_failed exn  \<comment> \<open>Gagal melakukan query Pinecone: {e}\<close>
  | Completion_failed exn  \<comment> \<open>Gagal mendapatkan jawaban dari OpenAI: {e}\<close>
  | No_processable_text  \<comment> \<open>File tidak berisi teks yang dapat diproses.\<close>
  | Invalid_api_key  \<comment> \<open>Harap masukkan API Key yang valid.\<close>
  | Context_line_failed exn  \<comment> \<open>Gagal mengambil konteks dari baris: {e}\<close>
  | No_context  \<comment> \<open>Tidak menemukan konteks yang relevan di database Anda. ...\<close>
  | Missing_config  \<comment> \<open>Harap masukkan semua API Key dan Konfigurasi Pinecone di sidebar.\<close>

record 'f vector =
  vec_id :: ustr
  vec_values :: "'f list"
  vec_metadata :: metadata

record match =
  match_id :: ustr
  match_metadata :: metadata

record message =
  role :: ustr
  content :: ustr

datatype 'f call =
    Embeddings_create ustr  \<comment> \<open>client.embeddings.create(input=text, ...)\<close>
  | List_indexes  \<comment> \<open>pinecone_client.list_indexes()\<close>
  | Create_index ustr  \<comment> \<open>pinecone_client.create_index(name=index_name, ...)\<close>
  | Describe_index ustr  \<comment> \<open>pinecone_client.describe_index(index_name)\<close>
  | Sleep  \<comment> \<open>time.sleep(1)\<close>
  | Open_index ustr  \<comment> \<open>pinecone_client.Index(index_name)\<close>
  | Index_upsert ustr "'f vector list"  \<comment> \<open>index.upsert(vectors=...)\<close>
  | Index_query ustr "'f list" nat  \<comment> \<open>index.query(vector=..., top_k=..., include_metadata=True)\<close>
  | Chat_completions_create ustr "message list"  \<comment> \<open>client.chat.completions.create(...)\<close>

text \<open>What one run of a handler does that can be seen from outside, in order.\<close>

datatype 'f event =
    St_error msg
  | St_warning msg
  | St_info msg
  | St_success msg
  | St_markdown ustr
  | Call "'f call"

text \<open>
  The hosted services answer as they please; a handler is a function of their answers.
  \<open>'f\<close> is the type of a vector component, which the script never inspects. An answer
  \<open>Inl e\<close> (or \<open>Some e\<close> for a call whose value is not used) is the call raising \<open>e\<close>.
  The embedding call and the readiness poll are made repeatedly in one run and are
  numbered, so that the n-th call may be answered differently from the one before.
\<close>

record 'f services =
  svc_embeddings_create :: "nat \<Rightarrow> ustr \<Rightarrow> exn + 'f list"
    \<comment> \<open>the value of \<^verbatim>\<open>client.embeddings.create(...).data[0].embedding\<close>\<close>
  svc_list_indexes :: "exn + ustr list"
    \<comment> \<open>the value of \<^verbatim>\<open>pinecone_client.list_indexes().names()\<close>\<close>
  svc_create_index :: "ustr \<Rightarrow> exn option"
  svc_describe_ready :: "nat \<Rightarrow> ustr \<Rightarrow> exn + bool"
    \<comment> \<open>the value of \<^verbatim>\<open>pinecone_client.describe_index(index_name).status['ready']\<close>\<close>
  svc_open_index :: "ustr \<Rightarrow> exn option"
  svc_index_upsert :: "ustr \<Rightarrow> 'f vector list \<Rightarrow> exn option"
  svc_index_query :: "ustr \<Rightarrow> 'f list \<Rightarrow> nat \<Rightarrow> exn + match list"
    \<comment> \<open>the value of \<^verbatim>\<open>index.query(...).matches\<close>\<close>
  svc_chat_completions :: "ustr \<Rightarrow> message list \<Rightarrow> exn + ustr list"
    \<comment> \<open>the \<^verbatim>\<open>message.content\<close> of each of \<^verbatim>\<open>response.choices\<close>, for a client built
        with the given API key\<close>
  svc_time :: "nat \<Rightarrow> ustr"
    \<comment> \<open>\<^verbatim>\<open>time.time()\<close> as an f-string renders it\<close>

text \<open>
  A client object is known by the API key it was built with. The variables
  \<^verbatim>\<open>pinecone_client\<close> and \<^verbatim>\<open>openai_embedding_client\<close> hold \<^verbatim>\<open>None\<close> until a key is
  entered and construction succeeds.
\<close>

type_synonym client = ustr

section \<open>The gateway functions\<close>

text \<open>
  \<^verbatim>\<open>get_embedding(text, client)\<close>: every exception becomes an error message and the
  value \<^verbatim>\<open>None\<close>. With no client, the attribute access on \<^verbatim>\<open>None\<close> raises inside the
  \<^verbatim>\<open>try\<close>, before any call is made.
\<close>

definition get_embedding ::
  "'f services \<Rightarrow> nat \<Rightarrow> ustr \<Rightarrow> client option \<Rightarrow> 'f list option \<times> 'f event list" where
  "get_embedding svc k text client =
     (case client of
        None \<Rightarrow> (None, [St_error (Embedding_failed AttributeError)])
      | Some _ \<Rightarrow>
          (case svc_embeddings_create svc k text of
             Inl e \<Rightarrow> (None, [Call (Embeddings_create text), St_error (Embedding_failed e)])
           | Inr embedding \<Rightarrow> (Some embedding, [Call (Embeddings_create text)])))"

text \<open>Python's truth value of what \<^verbatim>\<open>get_embedding\<close> returns: false for \<^verbatim>\<open>None\<close> and for \<^verbatim>\<open>[]\<close>.\<close>

definition truthy :: "'a list option \<Rightarrow> bool" where
  "truthy v = (case v of None \<Rightarrow> False | Some xs \<Rightarrow> xs \<noteq> [])"

text \<open>
  The polling loop of \<^verbatim>\<open>upsert_to_pinecone\<close>,
  \<^verbatim>\<open>while not pinecone_client.describe_index(index_name).status['ready']: time.sleep(1)\<close>,
  which has no bound: \<open>None\<close> is the loop never ending. \<open>k\<close> counts the polls made so far
  and \<open>evs\<close> holds the events so far.
\<close>

partial_function (option) wait_ready ::
  "'f services \<Rightarrow> ustr \<Rightarrow> nat \<Rightarrow> 'f event list \<Rightarrow> ((exn + unit) \<times> 'f event list) option" where
  "wait_ready svc index_name k evs =
     (case svc_describe_ready svc k index_name of
        Inl e \<Rightarrow> Some (Inl e, evs @ [Call (Describe_index index_name)])
      | Inr ready \<Rightarrow>
          if ready then Some (Inr (), evs @ [Call (Describe_index index_name)])
          else wait_ready svc index_name (Suc k) (evs @ [Call (Describe_index index_name), Call Sleep]))"

text \<open>Lines 50 to 60 of \<^verbatim>\<open>upsert_to_pinecone\<close>: create the index when its name is not listed.\<close>

definition ensure_index ::
  "'f services \<Rightarrow> ustr \<Rightarrow> ((exn + unit) \<times> 'f event list) option" where
  "ensure_index svc index_name =
     (case svc_list_indexes svc of
        Inl e \<Rightarrow> Some (Inl e, [Call List_indexes])
      | Inr names \<Rightarrow>
          if index_name \<notin> set names then
            (case svc_create_index svc index_name of
               Some e \<Rightarrow>
                 Some (Inl e, [Call List_indexes, St_info (Creating_index index_name),
                               Call (Create_index index_name)])
             | None \<Rightarrow>
                 wait_ready svc index_name 0
                   [Call List_indexes, St_info (Creating_index index_name),
                    Call (Create_index index_name)])
          else Some (Inr (), [Call List_indexes]))"

text \<open>\<^verbatim>\<open>f"doc-{time.time()}-{i}"\<close>\<close>

definition doc_id :: "ustr \<Rightarrow> nat \<Rightarrow> ustr" where
  "doc_id t i = ustr_of ''doc-'' @ t @ ustr_of ''-'' @ str_nat i"

text \<open>
  Lines 64 to 72: the loop \<^verbatim>\<open>for i, text in enumerate(texts)\<close>, from position \<open>i\<close> on.
  \<^verbatim>\<open>metadata_list[i]\<close> raises when the metadata list is too short, which ends the loop.
\<close>

fun build_vectors ::
  "'f services \<Rightarrow> client option \<Rightarrow> metadata list \<Rightarrow> nat \<Rightarrow> ustr list \<Rightarrow>
     (exn + 'f vector list) \<times> 'f event list" where
  "build_vectors svc embedding_client metadata_list i [] = (Inr [], [])"
| "build_vectors svc embedding_client metadata_list i (text # texts) =
     (case get_embedding svc i text embedding_client of
        (embedding, evs) \<Rightarrow>
          if truthy embedding then
            if i < length metadata_list then
              (case build_vectors svc embedding_client metadata_list (Suc i) texts of
                 (Inl e, evs') \<Rightarrow> (Inl e, evs @ evs')
               | (Inr vectors, evs') \<Rightarrow>
                   (Inr (\<lparr>vec_id = doc_id (svc_time svc i) i,
                          vec_values = the embedding,
                          vec_metadata = metadata_list ! i\<rparr> # vectors),
                    evs @ evs'))
            else (Inl IndexError, evs)
          else
            (case build_vectors svc embedding_client metadata_list (Suc i) texts of
               (r, evs') \<Rightarrow> (r, evs @ evs')))"

text \<open>Lines 74 to 82: the single batch call, and the value \<^verbatim>\<open>upsert_to_pinecone\<close> returns.\<close>

definition upsert_batch ::
  "'f services \<Rightarrow> ustr \<Rightarrow> 'f vector list \<Rightarrow> bool \<times> 'f event list" where
  "upsert_batch svc index_name vectors_to_upsert =
     (if vectors_to_upsert \<noteq> [] then
        (case svc_index_upsert svc index_name vectors_to_upsert of
           None \<Rightarrow>
             (True, [Call (Index_upsert index_name vectors_to_upsert),
                     St_success (Upsert_ok (length vectors_to_upsert) index_name)])
         | Some e \<Rightarrow>
             (False, [Call (Index_upsert index_name vectors_to_upsert),
                      St_error (Upsert_failed e)]))
      else (False, []))"

text \<open>
  \<^verbatim>\<open>upsert_to_pinecone(index_name, texts, metadata_list, pinecone_client, embedding_client)\<close>.
  The result is \<open>None\<close> when the polling loop never ends; otherwise the value returned
  (\<open>Inr\<close>) or the exception that leaves the function (\<open>Inl\<close>), with the events of the run.
\<close>

definition upsert_to_pinecone ::
  "'f services \<Rightarrow> ustr \<Rightarrow> ustr list \<Rightarrow> metadata list \<Rightarrow> client option \<Rightarrow> client option \<Rightarrow>
     ((exn + bool) \<times> 'f event list) option" where
  "upsert_to_pinecone svc index_name texts metadata_list pinecone_client embedding_client =
     (case pinecone_client of
        None \<Rightarrow> Some (Inr False, [St_error Pinecone_uninit_upload])
      | Some _ \<Rightarrow>
          (case ensure_index svc index_name of
             None \<Rightarrow> None
           | Some (Inl e, evs) \<Rightarrow> Some (Inl e, evs)
           | Some (Inr _, evs) \<Rightarrow>
               (case svc_open_index svc index_name of
                  Some e \<Rightarrow> Some (Inl e, evs @ [Call (Open_index index_name)])
                | None \<Rightarrow>
                    (case build_vectors svc embedding_client metadata_list 0 texts of
                       (Inl e, evs') \<Rightarrow>
                         Some (Inl e, evs @ [Call (Open_index index_name)] @ evs')
                     | (Inr vectors_to_upsert, evs') \<Rightarrow>
                         (case upsert_batch svc index_name vectors_to_upsert of
                            (ok, evs'') \<Rightarrow>
                              Some (Inr ok,
                                    evs @ [Call (Open_index index_name)] @ evs' @ evs''))))))"

text \<open>
  \<^verbatim>\<open>query_pinecone(index_name, query_text, top_k, pinecone_client, embedding_client)\<close>.
  The listing of the indexes and the opening of the index are outside every \<^verbatim>\<open>try\<close>.
\<close>

definition query_pinecone ::
  "'f services \<Rightarrow> ustr \<Rightarrow> ustr \<Rightarrow> nat \<Rightarrow> client option \<Rightarrow> client option \<Rightarrow>
     (exn + match list) \<times> 'f event list" where
  "query_pinecone svc index_name query_text top_k pinecone_client embedding_client =
     (case pinecone_client of
        None \<Rightarrow> (Inr [], [St_error Pinecone_uninit_query])
      | Some _ \<Rightarrow>
          (case svc_list_indexes svc of
             Inl e \<Rightarrow> (Inl e, [Call List_indexes])
           | Inr names \<Rightarrow>
               if index_name \<notin> set names then
                 (Inr [], [Call List_indexes, St_warning (Index_not_found index_name)])
               else
                 (case svc_open_index svc index_name of
                    Some e \<Rightarrow> (Inl e, [Call List_indexes, Call (Open_index index_name)])
                  | None \<Rightarrow>
                      (case get_embedding svc 0 query_text embedding_client of
                         (query_embedding, evs) \<Rightarrow>
                           if truthy query_embedding then
                             (case svc_index_query svc index_name (the query_embedding) top_k of
                                Inr matches \<Rightarrow>
                                  (Inr matches,
                                   [Call List_indexes, Call (Open_index index_name)] @ evs @
                                   [Call (Index_query index_name (the query_embedding) top_k)])
                              | Inl e \<Rightarrow>
                                  (Inr [],
                                   [Call List_indexes, Call (Open_index index_name)] @ evs @
                                   [Call (Index_query index_name (the query_embedding) top_k),
                                    St_error (Query_failed e)]))
                           else
                             (Inr [],
                              [Call List_indexes, Call (Open_index index_name)] @ evs)))))"

definition system_content :: ustr where
  "system_content =
     ustr_of ''Anda adalah asisten AI yang cerdas. Jawab pertanyaan berdasarkan konteks yang diberikan.''"

text \<open>\<^verbatim>\<open>f"Konteks: {context}\n\nPertanyaan: {question}"\<close>\<close>

definition user_content :: "ustr \<Rightarrow> ustr \<Rightarrow> ustr" where
  "user_content question context =
     ustr_of ''Konteks: '' @ context @ [newline, newline] @ ustr_of ''Pertanyaan: '' @ question"

definition apology :: ustr where
  "apology = ustr_of ''Maaf, saya tidak bisa menjawab pertanyaan ini saat ini.''"

text \<open>
  \<^verbatim>\<open>get_answer_from_openai(question, context, openai_api_key)\<close>: the whole body is in
  one \<^verbatim>\<open>try\<close>, so a response without choices (\<^verbatim>\<open>choices[0]\<close> raising) is handled like
  a failed call.
\<close>

definition get_answer_from_openai ::
  "'f services \<Rightarrow> ustr \<Rightarrow> ustr \<Rightarrow> ustr \<Rightarrow> ustr \<times> 'f event list" where
  "get_answer_from_openai svc question context openai_api_key =
     (let messages =
            [\<lparr>role = ustr_of ''system'', content = system_content\<rparr>,
             \<lparr>role = ustr_of ''user'', content = user_content question context\<rparr>]
      in case svc_chat_completions svc openai_api_key messages of
           Inl e \<Rightarrow>
             (apology,
              [Call (Chat_completions_create openai_api_key messages),
               St_error (Completion_failed e)])
         | Inr choices \<Rightarrow>
             (case choices of
                [] \<Rightarrow>
                  (apology,
                   [Call (Chat_completions_create openai_api_key messages),
                    St_error (Completion_failed IndexError)])
              | answer # _ \<Rightarrow>
                  (answer, [Call (Chat_completions_create openai_api_key messages)])))"

section \<open>The script's inputs and its session state\<close>

text \<open>
  The uploaded file, after \<^verbatim>\<open>uploaded_file.read().decode("utf-8")\<close>: its name and its
  text. The file is taken to be valid UTF-8.
\<close>

record uploaded_file =
  name :: ustr
  file_text :: ustr

text \<open>The three text inputs of the sidebar.\<close>

record config =
  openai_api_key :: ustr
  pinecone_api_key :: ustr
  pinecone_environment :: ustr

text \<open>
  \<^verbatim>\<open>st.session_state\<close>: the chat history, and the text cache, which is \<open>None\<close> as long as
  the key \<^verbatim>\<open>text_cache\<close> is not in the session state.
\<close>

record session =
  messages :: "message list"
  text_cache :: "(ustr \<rightharpoonup> ustr) option"

section \<open>The upload handler\<close>

text \<open>
  Lines 151 to 167. \<open>button\<close> is what \<^verbatim>\<open>st.button\<close> returns. The value
  \<^verbatim>\<open>upsert_to_pinecone\<close> returns is dropped; an exception that leaves it ends the run.
\<close>

definition upload_handler ::
  "'f services \<Rightarrow> client option \<Rightarrow> client option \<Rightarrow> uploaded_file option \<Rightarrow> ustr \<Rightarrow> bool \<Rightarrow>
     (exn option \<times> 'f event list) option" where
  "upload_handler svc pinecone_client openai_embedding_client uploaded index_name button =
     (case uploaded of
        None \<Rightarrow> Some (None, [])
      | Some file \<Rightarrow>
          if index_name \<noteq> [] \<and> button then
            if openai_embedding_client \<noteq> None \<and> pinecone_client \<noteq> None then
              (let file_content = file_text file;
                   texts = chunk_texts file_content;
                   metadata_list = chunk_metadata (name file) texts
               in if texts \<noteq> [] then
                    (case upsert_to_pinecone svc index_name texts metadata_list
                            pinecone_client openai_embedding_client of
                       None \<Rightarrow> None
                     | Some (Inl e, evs) \<Rightarrow> Some (Some e, evs)
                     | Some (Inr _, evs) \<Rightarrow> Some (None, evs))
                  else Some (None, [St_warning No_processable_text]))
            else Some (None, [St_error Invalid_api_key])
          else Some (None, []))"

section \<open>The chat handler\<close>

text \<open>\<^verbatim>\<open>xs[i]\<close> for a Python integer: a negative index counts from the end.\<close>

definition list_item :: "'a list \<Rightarrow> int \<Rightarrow> exn + 'a" where
  "list_item xs i =
     (if 0 \<le> i \<and> i < int (length xs) then Inr (xs ! nat i)
      else if i < 0 \<and> - int (length xs) \<le> i then Inr (xs ! nat (int (length xs) + i))
      else Inl IndexError)"

text \<open>
  Line 196, the first value of \<^verbatim>\<open>context_texts\<close>:
  \<^verbatim>\<open>match.metadata['text'] if 'text' in match.metadata else ' '.join(match.id.split('-'))\<close>.
  Both branches of the \<^verbatim>\<open>if\<close> that follows assign \<^verbatim>\<open>context_texts\<close> again.
\<close>

definition first_context_text :: "match \<Rightarrow> pyval" where
  "first_context_text m =
     (case match_metadata m key_text of
        Some v \<Rightarrow> v
      | None \<Rightarrow> PyStr (str_join [32] (str_split hyphen (match_id m))))"

text \<open>
  Lines 206 to 213, the body of the loop over the matches when the text cache holds the
  uploaded file: what the match appends to \<^verbatim>\<open>context_texts\<close> (nothing or one item) and
  the warning shown when the \<^verbatim>\<open>try\<close> catches an exception. Comparing a string with an
  integer raises.
\<close>

definition cached_context_text :: "ustr list \<Rightarrow> match \<Rightarrow> pyval list \<times> 'f event list" where
  "cached_context_text all_lines m =
     (let text_fallback =
            (case match_metadata m key_text of
               Some v \<Rightarrow> ([v], [])
             | None \<Rightarrow> ([], []))
      in case match_metadata m key_line of
           None \<Rightarrow> text_fallback
         | Some (PyStr _) \<Rightarrow> ([], [St_warning (Context_line_failed TypeError)])
         | Some (PyInt line_num) \<Rightarrow>
             if line_num < int (length all_lines) then
               (case list_item all_lines line_num of
                  Inr line \<Rightarrow> ([PyStr line], [])
                | Inl e \<Rightarrow> ([], [St_warning (Context_line_failed e)]))
             else text_fallback)"

text \<open>
  The condition of line 202:
  \<^verbatim>\<open>uploaded_file and 'text_cache' in st.session_state and uploaded_file.name in st.session_state.text_cache\<close>,
  giving the cached text when it holds.
\<close>

definition cached_text :: "uploaded_file option \<Rightarrow> session \<Rightarrow> ustr option" where
  "cached_text uploaded st =
     (case uploaded of
        None \<Rightarrow> None
      | Some file \<Rightarrow>
          (case text_cache st of
             None \<Rightarrow> None
           | Some cache \<Rightarrow> cache (name file)))"

text \<open>Lines 196 to 215: \<^verbatim>\<open>context_texts\<close> for a non-empty list of matches.\<close>

definition reconstruct_context ::
  "uploaded_file option \<Rightarrow> session \<Rightarrow> match list \<Rightarrow> pyval list \<times> 'f event list" where
  "reconstruct_context uploaded st pinecone_results =
     (let context_texts = map first_context_text pinecone_results
      in case cached_text uploaded st of
           Some text \<Rightarrow>
             (let all_lines = str_split newline text;
                  steps = map (cached_context_text all_lines) pinecone_results
              in (concat (map fst steps), concat (map snd steps)))
         | None \<Rightarrow>
             (map (\<lambda>m. case match_metadata m key_text of
                          Some v \<Rightarrow> v
                        | None \<Rightarrow> PyStr (match_id m))
                  pinecone_results,
              []))"

text \<open>\<^verbatim>\<open>"\n".join(context_texts)\<close>, which raises when an item is not a string.\<close>

fun strs_of :: "pyval list \<Rightarrow> ustr list option" where
  "strs_of [] = Some []"
| "strs_of (PyStr s # vs) = (case strs_of vs of None \<Rightarrow> None | Some ss \<Rightarrow> Some (s # ss))"
| "strs_of (PyInt _ # vs) = None"

definition join_lines :: "pyval list \<Rightarrow> exn + ustr" where
  "join_lines context_texts =
     (case strs_of context_texts of
        None \<Rightarrow> Inl TypeError
      | Some ss \<Rightarrow> Inr (str_join [newline] ss))"

text \<open>
  Lines 192 to 217: the query with \<^verbatim>\<open>top_k=3\<close> and the context built from its matches.
  \<open>Inl\<close> is an exception that no \<^verbatim>\<open>try\<close> of the script catches.
\<close>

definition retrieve_context ::
  "'f services \<Rightarrow> client option \<Rightarrow> client option \<Rightarrow> uploaded_file option \<Rightarrow> ustr \<Rightarrow>
     session \<Rightarrow> ustr \<Rightarrow> (exn + ustr) \<times> 'f event list" where
  "retrieve_context svc pinecone_client openai_embedding_client uploaded index_name st prompt =
     (case query_pinecone svc index_name prompt 3 pinecone_client openai_embedding_client of
        (Inl e, evs) \<Rightarrow> (Inl e, evs)
      | (Inr pinecone_results, evs) \<Rightarrow>
          if pinecone_results \<noteq> [] then
            (case reconstruct_context uploaded st pinecone_results of
               (context_texts, evs') \<Rightarrow>
                 (case join_lines context_texts of
                    Inl e \<Rightarrow> (Inl e, evs @ evs')
                  | Inr context \<Rightarrow> (Inr context, evs @ evs')))
          else (Inr [], evs))"

text \<open>
  Lines 184 to 227, for a submitted prompt: the new session state, the events of the run,
  and the exception that ended the run early, if one did.
\<close>

definition chat_handler ::
  "'f services \<Rightarrow> config \<Rightarrow> client option \<Rightarrow> client option \<Rightarrow> uploaded_file option \<Rightarrow> ustr \<Rightarrow>
     ustr \<Rightarrow> session \<Rightarrow> session \<times> 'f event list \<times> exn option" where
  "chat_handler svc cfg pinecone_client openai_embedding_client uploaded index_name prompt st =
     (let st1 = st\<lparr>messages := messages st @ [\<lparr>role = ustr_of ''user'', content = prompt\<rparr>]\<rparr>;
          evs1 = [St_markdown prompt]
      in if openai_api_key cfg \<noteq> [] \<and> pinecone_api_key cfg \<noteq> [] \<and> pinecone_environment cfg \<noteq> []
         then
           (case retrieve_context svc pinecone_client openai_embedding_client uploaded
                   index_name st1 prompt of
              (Inl e, evs2) \<Rightarrow> (st1, evs1 @ evs2, Some e)
            | (Inr context, evs2) \<Rightarrow>
                (let evs3 = (if context = [] then [St_warning No_context] else [])
                 in case get_answer_from_openai svc prompt context (openai_api_key cfg) of
                      (answer, evs4) \<Rightarrow>
                        (st1\<lparr>messages :=
                               messages st1 @ [\<lparr>role = ustr_of ''assistant'', content = answer\<rparr>]\<rparr>,
                         evs1 @ evs2 @ evs3 @ evs4 @ [St_markdown answer],
                         None)))
         else (st1, evs1 @ [St_error Missing_config], None))"

text \<open>
  Line 182, \<^verbatim>\<open>if prompt := st.chat_input(...)\<close>: nothing happens unless a non-empty
  prompt was submitted in this run.
\<close>

definition chat_section ::
  "'f services \<Rightarrow> config \<Rightarrow> client option \<Rightarrow> client option \<Rightarrow> uploaded_file option \<Rightarrow> ustr \<Rightarrow>
     ustr option \<Rightarrow> session \<Rightarrow> session \<times> 'f event list \<times> exn option" where
  "chat_section svc cfg pinecone_client openai_embedding_client uploaded index_name chat_input st =
     (case chat_input of
        None \<Rightarrow> (st, [], None)
      | Some prompt \<Rightarrow>
          if prompt \<noteq> [] then
            chat_handler svc cfg pinecone_client openai_embedding_client uploaded index_name
              prompt st
          else (st, [], None))"

section \<open>What a run did, read off its events\<close>

text \<open>The texts sent to the embedding endpoint, in order.\<close>

definition embed_calls :: "'f event list \<Rightarrow> ustr list" where
  "embed_calls evs =
     concat (map (\<lambda>ev. case ev of Call (Embeddings_create t) \<Rightarrow> [t] | _ \<Rightarrow> []) evs)"

text \<open>The batches sent to \<^verbatim>\<open>index.upsert\<close>, each with the name of its index.\<close>

definition upsert_calls :: "'f event list \<Rightarrow> (ustr \<times> 'f vector list) list" where
  "upsert_calls evs =
     concat (map (\<lambda>ev. case ev of Call (Index_upsert n vs) \<Rightarrow> [(n, vs)] | _ \<Rightarrow> []) evs)"

text \<open>The exceptions reported by the message for a failed upload.\<close>

definition upsert_errors :: "'f event list \<Rightarrow> exn list" where
  "upsert_errors evs =
     concat (map (\<lambda>ev. case ev of St_error (Upsert_failed e) \<Rightarrow> [e] | _ \<Rightarrow> []) evs)"

text \<open>The nearest-neighbour queries made.\<close>

definition query_calls :: "'f event list \<Rightarrow> (ustr \<times> 'f list \<times> nat) list" where
  "query_calls evs =
     concat (map (\<lambda>ev. case ev of Call (Index_query n v k) \<Rightarrow> [(n, v, k)] | _ \<Rightarrow> []) evs)"

text \<open>The completion requests made: the API key and the messages sent.\<close>

definition completion_calls :: "'f event list \<Rightarrow> (ustr \<times> message list) list" where
  "completion_calls evs =
     concat (map (\<lambda>ev. case ev of Call (Chat_completions_create k ms) \<Rightarrow> [(k, ms)] | _ \<Rightarrow> []) evs)"

text \<open>The exceptions reported by the message for a failed completion request.\<close>

definition completion_errors :: "'f event list \<Rightarrow> exn list" where
  "completion_errors evs =
     concat (map (\<lambda>ev. case ev of St_error (Completion_failed e) \<Rightarrow> [e] | _ \<Rightarrow> []) evs)"

text \<open>
  The specification of the ingestion loop, in the words of the claim about it: the vector
  records of the chunks whose embedding call gave a usable vector, in order, each with
  the metadata of its own position; the other chunks are left out. The chunks are
  numbered from \<open>i\<close>.
\<close>

definition surviving_vectors ::
  "'f services \<Rightarrow> client option \<Rightarrow> metadata list \<Rightarrow> nat \<Rightarrow> ustr list \<Rightarrow> 'f vector list" where
  "surviving_vectors svc embedding_client metadata_list i texts =
     [\<lparr>vec_id = doc_id (svc_time svc j) j,
       vec_values = the (fst (get_embedding svc j t embedding_client)),
       vec_metadata = metadata_list ! j\<rparr>.
      (j, t) \<leftarrow> enumerate i texts,
      truthy (fst (get_embedding svc j t embedding_client))]"

text \<open>The events of one embedding attempt for every chunk, whatever the earlier ones gave.\<close>

definition embedding_events ::
  "'f services \<Rightarrow> client option \<Rightarrow> nat \<Rightarrow> ustr list \<Rightarrow> 'f event list" where
  "embedding_events svc embedding_client i texts =
     concat (map (\<lambda>(j, t). snd (get_embedding svc j t embedding_client)) (enumerate i texts))"

section \<open>Concrete runs\<close>

definition demo_index :: ustr where
  "demo_index = ustr_of ''my-chatbot-data''"

text \<open>Services where the index exists and every call succeeds; the index holds nothing.\<close>

definition demo_services :: "nat services" where
  "demo_services =
     \<lparr>svc_embeddings_create = (\<lambda>k t. Inr [1, 2, 3]),
      svc_list_indexes = Inr [demo_index],
      svc_create_index = (\<lambda>n. None),
      svc_describe_ready = (\<lambda>k n. Inr True),
      svc_open_index = (\<lambda>n. None),
      svc_index_upsert = (\<lambda>n vs. None),
      svc_index_query = (\<lambda>n v k. Inr []),
      svc_chat_completions = (\<lambda>key ms. Inr [ustr_of ''Jawaban'']),
      svc_time = (\<lambda>k. ustr_of ''1700000000.5'')\<rparr>"

text \<open>
  No index yet, the index is ready at the second poll, and the second embedding call of
  the run fails.
\<close>

definition flaky_services :: "nat services" where
  "flaky_services =
     demo_services
       \<lparr>svc_embeddings_create :=
          (\<lambda>k t. if k = 1 then Inl (ServiceError (ustr_of ''rate limit'')) else Inr [1, 2, 3]),
        svc_list_indexes := Inr [],
        svc_describe_ready := (\<lambda>k n. Inr (1 \<le> k))\<rparr>"

text \<open>Every embedding call fails.\<close>

definition no_embedding_services :: "nat services" where
  "no_embedding_services =
     demo_services
       \<lparr>svc_embeddings_create := (\<lambda>k t. Inl (ServiceError (ustr_of ''rate limit'')))\<rparr>"

text \<open>The upsert call fails.\<close>

definition no_upsert_services :: "nat services" where
  "no_upsert_services =
     demo_services\<lparr>svc_index_upsert := (\<lambda>n vs. Some (ServiceError (ustr_of ''quota'')))\<rparr>"

text \<open>The completion call fails.\<close>

definition no_completion_services :: "nat services" where
  "no_completion_services =
     demo_services
       \<lparr>svc_chat_completions := (\<lambda>key ms. Inl (ServiceError (ustr_of ''timeout'')))\<rparr>"

definition demo_config :: config where
  "demo_config =
     \<lparr>openai_api_key = ustr_of ''sk-1'', pinecone_api_key = ustr_of ''pc-1'',
      pinecone_environment = ustr_of ''us-west-2-aws''\<rparr>"

definition empty_session :: session where
  "empty_session = \<lparr>messages = [], text_cache = None\<rparr>"

definition demo_texts :: "ustr list" where
  "demo_texts = [ustr_of ''apple'', ustr_of ''banana'', ustr_of ''cherry'']"

text \<open>A file whose first line is empty and whose second line is \<^verbatim>\<open>apple\<close>.\<close>

definition blank_first_file :: uploaded_file where
  "blank_first_file = \<lparr>name = ustr_of ''f.txt'', file_text = newline # ustr_of ''apple''\<rparr>"

text \<open>The file with the lines \<^verbatim>\<open>apple\<close>, an empty line and \<^verbatim>\<open>banana\<close>.\<close>

definition blank_middle_file :: uploaded_file where
  "blank_middle_file =
     \<lparr>name = ustr_of ''f.txt'',
      file_text = ustr_of ''apple'' @ [newline, newline] @ ustr_of ''banana''\<rparr>"

definition one_line_file :: uploaded_file where
  "one_line_file = \<lparr>name = ustr_of ''f.txt'', file_text = ustr_of ''apple''\<rparr>"

text \<open>The session whose text cache holds the given file under its name.\<close>

definition cached :: "uploaded_file \<Rightarrow> session" where
  "cached file = \<lparr>messages = [], text_cache = Some [name file \<mapsto> file_text file]\<rparr>"

text \<open>
  A match left in the index by an earlier upload of another file: line 7, and no
  \<^verbatim>\<open>text\<close> in its metadata, as the upload handler writes it.
\<close>

definition far_match :: match where
  "far_match =
     \<lparr>match_id = ustr_of ''doc-1700000000.5-7'',
      match_metadata = [key_source \<mapsto> PyStr (ustr_of ''g.txt''), key_line \<mapsto> PyInt 7]\<rparr>"

lemmas run_defs =
  demo_index_def demo_services_def flaky_services_def no_embedding_services_def
  no_upsert_services_def no_completion_services_def demo_config_def empty_session_def
  demo_texts_def blank_first_file_def blank_middle_file_def one_line_file_def cached_def
  far_match_def ustr_of_def newline_def hyphen_def key_source_def key_line_def key_text_def
  isspace_def str_strip_def str_nat.simps doc_id_def chunk_texts_def chunk_metadata_def
  get_embedding_def truthy_def wait_ready.simps ensure_index_def upsert_batch_def
  upsert_to_pinecone_def query_pinecone_def get_answer_from_openai_def list_item_def
  first_context_text_def cached_context_text_def cached_text_def reconstruct_context_def
  join_lines_def retrieve_context_def chat_handler_def chat_section_def
  embed_calls_def upsert_calls_def upsert_errors_def query_calls_def completion_calls_def
  surviving_vectors_def enumerate_eq_zip upt_rec Let_def

section \<open>Properties of the chunking\<close>

lemma dropWhile_all_iff: "(\<forall>x \<in> set (dropWhile P xs). P x) \<longleftrightarrow> (\<forall>x \<in> set xs. P x)"
  by (induction xs) auto

lemma str_strip_empty_iff: "str_strip s = [] \<longleftrightarrow> list_all isspace s"
  by (simp add: str_strip_def dropWhile_all_iff list_all_iff)

lemma comprehension_filter:
  "concat (map (\<lambda>x. if P x then [f x] else []) xs) = map f (filter P xs)"
  by (induction xs) auto

text \<open>
  C3. The chunks of an uploaded text are the trimmed lines that hold something other than
  whitespace, in order: there are as many chunks as lines that are non-empty after
  trimming, and an empty or whitespace-only line yields none.
\<close>

theorem chunk_texts_nonblank_lines:
  "chunk_texts file_content =
     map str_strip (filter (\<lambda>line. \<not> list_all isspace line) (str_split newline file_content))
   \<and> length (chunk_texts file_content) =
     length (filter (\<lambda>line. str_strip line \<noteq> []) (str_split newline file_content))
   \<and> [] \<notin> set (chunk_texts file_content)"
proof -
  have eq: "chunk_texts file_content =
      map str_strip (filter (\<lambda>line. str_strip line \<noteq> []) (str_split newline file_content))"
    unfolding chunk_texts_def by (rule comprehension_filter)
  have flt: "filter (\<lambda>line. str_strip line \<noteq> []) xs = filter (\<lambda>line. \<not> list_all isspace line) xs"
    for xs
    by (simp add: str_strip_empty_iff)
  have ne: "[] \<notin> set (map str_strip (filter (\<lambda>line. str_strip line \<noteq> []) xs))" for xs
    by (induction xs) auto
  show ?thesis
    using ne [of "str_split newline file_content"] by (simp add: eq flt)
qed

text \<open>
  C2. The claim asks for the position of the chunk among all the lines of the file. For
  the file with the lines \<^verbatim>\<open>apple\<close>, an empty line and \<^verbatim>\<open>banana\<close>, the chunk
  \<^verbatim>\<open>banana\<close> is line 2 of the file, and the metadata the upload handler builds for it
  says line 1: the handler numbers the chunks that are left after the empty lines are
  dropped.
\<close>

theorem line_metadata_counts_chunks_not_lines:
  "str_split newline (file_text blank_middle_file) = [ustr_of ''apple'', [], ustr_of ''banana'']
   \<and> chunk_texts (file_text blank_middle_file) = [ustr_of ''apple'', ustr_of ''banana'']
   \<and> map (\<lambda>m. m key_line)
         (chunk_metadata (name blank_middle_file) (chunk_texts (file_text blank_middle_file))) =
       [Some (PyInt 0), Some (PyInt 1)]"
  by (simp add: run_defs)

section \<open>Properties of the context reconstruction\<close>

text \<open>
  C1. The round trip fails on the file whose first line is empty and whose second line is
  \<^verbatim>\<open>apple\<close>: its only chunk is \<^verbatim>\<open>apple\<close>, stored with line 0, and with the file in
  the text cache the context rebuilt for a match carrying that metadata is the empty
  first line of the file, not the chunk.
\<close>

theorem roundtrip_breaks_after_blank_line:
  "chunk_texts (file_text blank_first_file) = [ustr_of ''apple'']
   \<and> chunk_metadata (name blank_first_file) (chunk_texts (file_text blank_first_file)) =
       [[key_source \<mapsto> PyStr (ustr_of ''f.txt''), key_line \<mapsto> PyInt 0]]
   \<and> reconstruct_context (Some blank_first_file) (cached blank_first_file)
         [\<lparr>match_id = ustr_of ''doc-1700000000.5-0'',
           match_metadata = [key_source \<mapsto> PyStr (ustr_of ''f.txt''), key_line \<mapsto> PyInt 0]\<rparr>] =
       ([PyStr []], ([] :: nat event list))"
  by (simp add: run_defs)

text \<open>
  C8. With the uploaded file in the text cache, a match whose line index is beyond the
  cached text and whose metadata has no \<^verbatim>\<open>text\<close> contributes nothing to the context:
  no placeholder is used. Without the cache entry the same match contributes its id, and
  the first value computed for it (line 196) is the id with its hyphens turned into
  spaces.
\<close>

theorem cached_lookup_drops_match:
  "reconstruct_context (Some one_line_file) (cached one_line_file) [far_match] =
     ([], ([] :: nat event list))
   \<and> reconstruct_context (Some one_line_file) empty_session [far_match] =
     ([PyStr (ustr_of ''doc-1700000000.5-7'')], ([] :: nat event list))
   \<and> first_context_text far_match = PyStr (ustr_of ''doc 1700000000.5 7'')"
  by (simp add: run_defs)

section \<open>Properties of the query\<close>

text \<open>
  C7. When the listing of the indexes does not hold the index name, the query returns the
  empty list of matches: it does not raise, and the only message is a warning (or the
  error about the missing client, when there is none).
\<close>

theorem query_missing_index_empty:
  "svc_list_indexes svc = Inr names \<Longrightarrow> index_name \<notin> set names \<Longrightarrow>
   query_pinecone svc index_name query_text top_k pinecone_client embedding_client =
     (Inr [], if pinecone_client = None then [St_error Pinecone_uninit_query]
              else [Call List_indexes, St_warning (Index_not_found index_name)])"
  by (simp add: query_pinecone_def split: option.splits)

theorem query_missing_index_empty_witness:
  "svc_list_indexes demo_services = Inr [demo_index]
   \<and> ustr_of ''other'' \<notin> set [demo_index]
   \<and> query_pinecone demo_services (ustr_of ''other'') (ustr_of ''apa?'') 3
       (Some (ustr_of ''pc-1'')) (Some (ustr_of ''sk-1'')) =
     (Inr [], [Call List_indexes, St_warning (Index_not_found (ustr_of ''other''))])"
proof -
  have h1: "svc_list_indexes demo_services = Inr [demo_index]"
    by (simp add: demo_services_def)
  have h2: "ustr_of ''other'' \<notin> set [demo_index]"
    by (simp add: demo_index_def ustr_of_def)
  show ?thesis
    using query_missing_index_empty [OF h1 h2, of "ustr_of ''apa?''" 3
        "Some (ustr_of ''pc-1'')" "Some (ustr_of ''sk-1'')"] h1 h2
    by simp
qed

section \<open>Properties of the ingestion\<close>

text \<open>
  The provisioning returns at once when the index is listed, and otherwise as soon as the
  service reports the new index ready: after \<open>n\<close> polls that say no and one that says yes.
\<close>

lemma ensure_index_listed:
  "svc_list_indexes svc = Inr names \<Longrightarrow> index_name \<in> set names \<Longrightarrow>
   ensure_index svc index_name = Some (Inr (), [Call List_indexes])"
  by (simp add: ensure_index_def)

lemma wait_ready_returns:
  assumes "svc_describe_ready svc (k + n) index_name = Inr True"
    and "\<forall>j<n. svc_describe_ready svc (k + j) index_name = Inr False"
  shows "wait_ready svc index_name k evs =
           Some (Inr (),
                 evs @ concat (replicate n [Call (Describe_index index_name), Call Sleep]) @
                 [Call (Describe_index index_name)])"
  using assms
proof (induction n arbitrary: k evs)
  case 0
  then show ?case by (subst wait_ready.simps) simp
next
  case (Suc n)
  from Suc.prems(2) have no: "svc_describe_ready svc k index_name = Inr False"
    by (metis add.right_neutral zero_less_Suc)
  from Suc.prems(1) have yes: "svc_describe_ready svc (Suc k + n) index_name = Inr True"
    by simp
  have before: "\<forall>j<n. svc_describe_ready svc (Suc k + j) index_name = Inr False"
  proof (intro allI impI)
    fix j assume "j < n"
    then have "Suc j < Suc n" by simp
    with Suc.prems(2) have "svc_describe_ready svc (k + Suc j) index_name = Inr False"
      by blast
    then show "svc_describe_ready svc (Suc k + j) index_name = Inr False" by simp
  qed
  show ?case
    by (subst wait_ready.simps) (simp add: no Suc.IH [OF yes before])
qed

text \<open>The loop computes the surviving vectors and tries every chunk.\<close>

lemma build_vectors_eq:
  "i + length texts \<le> length metadata_list \<Longrightarrow>
   build_vectors svc embedding_client metadata_list i texts =
     (Inr (surviving_vectors svc embedding_client metadata_list i texts),
      embedding_events svc embedding_client i texts)"
proof (induction texts arbitrary: i)
  case Nil
  show ?case by (simp add: surviving_vectors_def embedding_events_def)
next
  case (Cons t texts)
  from Cons.prems have le: "Suc i + length texts \<le> length metadata_list"
    and lt: "i < length metadata_list"
    by simp_all
  show ?case
    using Cons.IH [OF le] lt
    by (simp add: surviving_vectors_def embedding_events_def split: prod.splits)
qed

lemma embed_calls_append: "embed_calls (xs @ ys) = embed_calls xs @ embed_calls ys"
  by (simp add: embed_calls_def)

lemma upsert_calls_append: "upsert_calls (xs @ ys) = upsert_calls xs @ upsert_calls ys"
  by (simp add: upsert_calls_def)

lemma upsert_errors_append: "upsert_errors (xs @ ys) = upsert_errors xs @ upsert_errors ys"
  by (simp add: upsert_errors_def)

lemma embed_calls_get_embedding:
  "embed_calls (snd (get_embedding svc j t embedding_client)) =
     (if embedding_client = None then [] else [t])"
  by (simp add: embed_calls_def get_embedding_def split: option.splits sum.splits)

lemma embed_calls_embedding_events:
  "embed_calls (embedding_events svc embedding_client i texts) =
     (if embedding_client = None then [] else texts)"
  by (induction texts arbitrary: i)
     (simp_all add: embedding_events_def embed_calls_append embed_calls_get_embedding,
      simp add: embed_calls_def)

lemma upsert_calls_embedding_events:
  "upsert_calls (embedding_events svc embedding_client i texts) = []"
  by (induction texts arbitrary: i)
     (simp_all add: embedding_events_def upsert_calls_def get_embedding_def
        split: option.splits sum.splits)

lemma upsert_errors_embedding_events:
  "upsert_errors (embedding_events svc embedding_client i texts) = []"
  by (induction texts arbitrary: i)
     (simp_all add: embedding_events_def upsert_errors_def get_embedding_def
        split: option.splits sum.splits)

lemma upsert_batch_fst:
  "fst (upsert_batch svc index_name vs) \<longleftrightarrow>
     vs \<noteq> [] \<and> svc_index_upsert svc index_name vs = None"
  by (simp add: upsert_batch_def split: option.splits)

lemma embed_calls_upsert_batch: "embed_calls (snd (upsert_batch svc index_name vs)) = []"
  by (simp add: upsert_batch_def embed_calls_def split: option.splits)

lemma upsert_calls_upsert_batch:
  "upsert_calls (snd (upsert_batch svc index_name vs)) =
     (if vs = [] then [] else [(index_name, vs)])"
  by (simp add: upsert_batch_def upsert_calls_def split: option.splits)

lemma upsert_errors_upsert_batch:
  "upsert_errors (snd (upsert_batch svc index_name vs)) =
     (if vs = [] then []
      else case svc_index_upsert svc index_name vs of None \<Rightarrow> [] | Some e \<Rightarrow> [e])"
  by (simp add: upsert_batch_def upsert_errors_def split: option.splits)

lemma open_index_calls:
  "embed_calls [Call (Open_index n)] = []"
  "upsert_calls [Call (Open_index n)] = []"
  "upsert_errors [Call (Open_index n)] = []"
  by (simp_all add: embed_calls_def upsert_calls_def upsert_errors_def)

lemma upsert_to_pinecone_eq:
  assumes "ensure_index svc index_name = Some (Inr u, evs0)"
    and "svc_open_index svc index_name = None"
    and "length texts \<le> length metadata_list"
  shows "upsert_to_pinecone svc index_name texts metadata_list (Some pc) embedding_client =
           Some (Inr (fst (upsert_batch svc index_name
                        (surviving_vectors svc embedding_client metadata_list 0 texts))),
                 evs0 @ [Call (Open_index index_name)] @
                 embedding_events svc embedding_client 0 texts @
                 snd (upsert_batch svc index_name
                        (surviving_vectors svc embedding_client metadata_list 0 texts)))"
  using assms build_vectors_eq [of 0 texts metadata_list svc embedding_client]
  by (simp add: upsert_to_pinecone_def split: prod.splits)

lemma flaky_ensure_index:
  "ensure_index flaky_services demo_index =
     Some (Inr (), [Call List_indexes, St_info (Creating_index demo_index),
                    Call (Create_index demo_index), Call (Describe_index demo_index), Call Sleep,
                    Call (Describe_index demo_index)])"
  by (simp add: run_defs)

lemma demo_metadata_length:
  "length ts \<le> length (chunk_metadata file_name ts)"
  by (simp add: chunk_metadata_def)

text \<open>
  C9. Once the index is there and opened, and every chunk has its metadata, the function
  returns; the embedding endpoint was asked for every chunk, in order, whatever the
  earlier calls gave; and the one batch upserted holds exactly the chunks whose embedding
  call gave a usable vector (no upsert call is made when there is none). \<open>evs0\<close> are the
  events of the provisioning.
\<close>

theorem failed_embedding_skipped:
  assumes "ensure_index svc index_name = Some (Inr u, evs0)"
    and "svc_open_index svc index_name = None"
    and "length texts \<le> length metadata_list"
  shows "\<exists>ok evs.
           upsert_to_pinecone svc index_name texts metadata_list (Some pc) embedding_client =
             Some (Inr ok, evs0 @ evs)
         \<and> embed_calls evs = (if embedding_client = None then [] else texts)
         \<and> upsert_calls evs =
             (let batch = surviving_vectors svc embedding_client metadata_list 0 texts
              in if batch = [] then [] else [(index_name, batch)])"
  unfolding upsert_to_pinecone_eq [OF assms]
  by (simp add: embed_calls_append upsert_calls_append embed_calls_embedding_events
        upsert_calls_embedding_events embed_calls_upsert_batch upsert_calls_upsert_batch
        open_index_calls Let_def del: append_Cons append_Nil)

theorem failed_embedding_skipped_witness:
  "ensure_index flaky_services demo_index =
     Some (Inr (), [Call List_indexes, St_info (Creating_index demo_index),
                    Call (Create_index demo_index), Call (Describe_index demo_index), Call Sleep,
                    Call (Describe_index demo_index)])
   \<and> svc_open_index flaky_services demo_index = None
   \<and> length demo_texts \<le> length (chunk_metadata (ustr_of ''f.txt'') demo_texts)
   \<and> (\<exists>ok evs.
         upsert_to_pinecone flaky_services demo_index demo_texts
             (chunk_metadata (ustr_of ''f.txt'') demo_texts)
             (Some (ustr_of ''pc-1'')) (Some (ustr_of ''sk-1'')) =
           Some (Inr ok,
                 [Call List_indexes, St_info (Creating_index demo_index),
                  Call (Create_index demo_index), Call (Describe_index demo_index), Call Sleep,
                  Call (Describe_index demo_index)] @ evs)
       \<and> embed_calls evs = demo_texts
       \<and> upsert_calls evs =
           [(demo_index,
             [\<lparr>vec_id = ustr_of ''doc-1700000000.5-0'', vec_values = [1, 2, 3],
               vec_metadata = [key_source \<mapsto> PyStr (ustr_of ''f.txt''), key_line \<mapsto> PyInt 0]\<rparr>,
              \<lparr>vec_id = ustr_of ''doc-1700000000.5-2'', vec_values = [1, 2, 3],
               vec_metadata = [key_source \<mapsto> PyStr (ustr_of ''f.txt''), key_line \<mapsto> PyInt 2]\<rparr>])])"
proof -
  note h1 = flaky_ensure_index
  have h2: "svc_open_index flaky_services demo_index = None"
    by (simp add: run_defs)
  note h3 = demo_metadata_length [of demo_texts "ustr_of ''f.txt''"]
  have sv: "surviving_vectors flaky_services (Some (ustr_of ''sk-1''))
              (chunk_metadata (ustr_of ''f.txt'') demo_texts) 0 demo_texts =
            [\<lparr>vec_id = ustr_of ''doc-1700000000.5-0'', vec_values = [1, 2, 3],
               vec_metadata = [key_source \<mapsto> PyStr (ustr_of ''f.txt''), key_line \<mapsto> PyInt 0]\<rparr>,
              \<lparr>vec_id = ustr_of ''doc-1700000000.5-2'', vec_values = [1, 2, 3],
               vec_metadata = [key_source \<mapsto> PyStr (ustr_of ''f.txt''), key_line \<mapsto> PyInt 2]\<rparr>]"
    by (simp add: run_defs)
  show ?thesis
    using failed_embedding_skipped [OF h1 h2 h3, of "ustr_of ''pc-1''" "Some (ustr_of ''sk-1'')"]
      h1 h2 h3
    by (simp add: sv)
qed

text \<open>
  C5, as stated, fails: a run in which every embedding fails and a run in which the upsert
  call raises both return \<^verbatim>\<open>False\<close>. The two runs differ in the messages shown only.
\<close>

theorem empty_batch_and_failed_upsert_both_False:
  "upsert_to_pinecone no_embedding_services demo_index [ustr_of ''apple'']
     (chunk_metadata (ustr_of ''f.txt'') [ustr_of ''apple''])
     (Some (ustr_of ''pc-1'')) (Some (ustr_of ''sk-1'')) =
   Some (Inr False,
         [Call List_indexes, Call (Open_index demo_index),
          Call (Embeddings_create (ustr_of ''apple'')),
          St_error (Embedding_failed (ServiceError (ustr_of ''rate limit'')))])
   \<and> upsert_to_pinecone no_upsert_services demo_index [ustr_of ''apple'']
     (chunk_metadata (ustr_of ''f.txt'') [ustr_of ''apple''])
     (Some (ustr_of ''pc-1'')) (Some (ustr_of ''sk-1'')) =
   Some (Inr False,
         [Call List_indexes, Call (Open_index demo_index),
          Call (Embeddings_create (ustr_of ''apple'')),
          Call (Index_upsert demo_index
            [\<lparr>vec_id = ustr_of ''doc-1700000000.5-0'', vec_values = [1, 2, 3],
              vec_metadata = [key_source \<mapsto> PyStr (ustr_of ''f.txt''), key_line \<mapsto> PyInt 0]\<rparr>]),
          St_error (Upsert_failed (ServiceError (ustr_of ''quota'')))])"
  by (simp add: run_defs)

text \<open>
  C5, amended. Once the index is there and opened, the function returns \<^verbatim>\<open>True\<close> exactly
  when at least one vector survived and the upsert call succeeded, and \<^verbatim>\<open>False\<close> both
  for an empty batch and for a failed upsert call. The upload-failure message is shown
  exactly when the batch is not empty and the upsert call raises, with the exception
  raised.
\<close>

theorem upsert_to_pinecone_returns:
  assumes "ensure_index svc index_name = Some (Inr u, evs0)"
    and "svc_open_index svc index_name = None"
    and "length texts \<le> length metadata_list"
  shows "\<exists>evs.
           upsert_to_pinecone svc index_name texts metadata_list (Some pc) embedding_client =
             Some (Inr (surviving_vectors svc embedding_client metadata_list 0 texts \<noteq> [] \<and>
                        svc_index_upsert svc index_name
                          (surviving_vectors svc embedding_client metadata_list 0 texts) = None),
                   evs0 @ evs)
         \<and> upsert_errors evs =
             (if surviving_vectors svc embedding_client metadata_list 0 texts = [] then []
              else case svc_index_upsert svc index_name
                          (surviving_vectors svc embedding_client metadata_list 0 texts) of
                     None \<Rightarrow> []
                   | Some e \<Rightarrow> [e])"
  unfolding upsert_to_pinecone_eq [OF assms]
  by (simp add: upsert_errors_append upsert_errors_embedding_events upsert_batch_fst
        upsert_errors_upsert_batch open_index_calls del: append_Cons append_Nil)

theorem upsert_to_pinecone_returns_witness:
  "ensure_index no_upsert_services demo_index = Some (Inr (), [Call List_indexes])
   \<and> svc_open_index no_upsert_services demo_index = None
   \<and> length demo_texts \<le> length (chunk_metadata (ustr_of ''f.txt'') demo_texts)
   \<and> (\<exists>evs.
         upsert_to_pinecone no_upsert_services demo_index demo_texts
             (chunk_metadata (ustr_of ''f.txt'') demo_texts)
             (Some (ustr_of ''pc-1'')) (Some (ustr_of ''sk-1'')) =
           Some (Inr False, [Call List_indexes] @ evs)
       \<and> upsert_errors evs = [ServiceError (ustr_of ''quota'')])"
proof -
  have h1: "ensure_index no_upsert_services demo_index = Some (Inr (), [Call List_indexes])"
    by (simp add: run_defs)
  have h2: "svc_open_index no_upsert_services demo_index = None"
    by (simp add: run_defs)
  note h3 = demo_metadata_length [of demo_texts "ustr_of ''f.txt''"]
  have sv: "surviving_vectors no_upsert_services (Some (ustr_of ''sk-1''))
              (chunk_metadata (ustr_of ''f.txt'') demo_texts) 0 demo_texts \<noteq> []"
    by (simp add: run_defs)
  have up: "svc_index_upsert no_upsert_services demo_index vs =
              Some (ServiceError (ustr_of ''quota''))" for vs
    by (simp add: no_upsert_services_def demo_services_def)
  show ?thesis
    using upsert_to_pinecone_returns [OF h1 h2 h3, of "ustr_of ''pc-1''" "Some (ustr_of ''sk-1'')"]
      h1 h2 h3
    by (simp add: sv up)
qed

section \<open>Properties of the chat handler\<close>

lemma completion_calls_append:
  "completion_calls (xs @ ys) = completion_calls xs @ completion_calls ys"
  by (simp add: completion_calls_def)

lemma query_calls_append: "query_calls (xs @ ys) = query_calls xs @ query_calls ys"
  by (simp add: query_calls_def)

lemma completion_calls_get_answer:
  "completion_calls (snd (get_answer_from_openai svc question context key)) =
     [(key, [\<lparr>role = ustr_of ''system'', content = system_content\<rparr>,
             \<lparr>role = ustr_of ''user'', content = user_content question context\<rparr>])]"
  by (simp add: get_answer_from_openai_def completion_calls_def Let_def
        split: sum.splits list.splits)

lemma query_calls_get_answer:
  "query_calls (snd (get_answer_from_openai svc question context key)) = []"
  by (simp add: get_answer_from_openai_def query_calls_def Let_def
        split: sum.splits list.splits)

lemma completion_calls_get_embedding:
  "completion_calls (snd (get_embedding svc k t embedding_client)) = []"
  by (simp add: completion_calls_def get_embedding_def split: option.splits sum.splits)

lemma query_calls_get_embedding:
  "query_calls (snd (get_embedding svc k t embedding_client)) = []"
  by (simp add: query_calls_def get_embedding_def split: option.splits sum.splits)

lemma query_without_embedding:
  assumes "svc_list_indexes svc = Inr names" "index_name \<in> set names"
    and "svc_open_index svc index_name = None"
    and "\<not> truthy (fst (get_embedding svc 0 query_text embedding_client))"
  shows "query_pinecone svc index_name query_text top_k (Some pc) embedding_client =
           (Inr [], [Call List_indexes, Call (Open_index index_name)] @
                    snd (get_embedding svc 0 query_text embedding_client))"
  using assms by (simp add: query_pinecone_def case_prod_beta)

text \<open>
  C4, as stated, fails: with every key entered, the index there and the embedding of the
  question failing, the run still sends a completion request, with an empty context, and
  records the generated text as the assistant's turn.
\<close>

theorem failed_question_embedding_still_asks_llm:
  "chat_section no_embedding_services demo_config (Some (ustr_of ''pc-1''))
     (Some (ustr_of ''sk-1'')) None demo_index (Some (ustr_of ''apa?'')) empty_session =
   (\<lparr>messages = [\<lparr>role = ustr_of ''user'', content = ustr_of ''apa?''\<rparr>,
                  \<lparr>role = ustr_of ''assistant'', content = ustr_of ''Jawaban''\<rparr>],
     text_cache = None\<rparr>,
    [St_markdown (ustr_of ''apa?''),
     Call List_indexes, Call (Open_index demo_index),
     Call (Embeddings_create (ustr_of ''apa?'')),
     St_error (Embedding_failed (ServiceError (ustr_of ''rate limit''))),
     St_warning No_context,
     Call (Chat_completions_create (ustr_of ''sk-1'')
       [\<lparr>role = ustr_of ''system'', content = system_content\<rparr>,
        \<lparr>role = ustr_of ''user'', content = user_content (ustr_of ''apa?'') []\<rparr>]),
     St_markdown (ustr_of ''Jawaban'')],
    None)"
  by (simp add: run_defs)

text \<open>
  C4, amended. When the embedding of a submitted question fails (the keys are entered,
  the client is there, the index is listed and opened), no query is made, the advisory
  about the missing context is shown, and the completion endpoint is still asked, once,
  with the empty context; what \<^verbatim>\<open>get_answer_from_openai\<close> returns for it is recorded as
  the assistant's turn.
\<close>

theorem failed_question_embedding_answered_without_context:
  assumes "prompt \<noteq> []"
    and "openai_api_key cfg \<noteq> []" "pinecone_api_key cfg \<noteq> []" "pinecone_environment cfg \<noteq> []"
    and "svc_list_indexes svc = Inr names" "index_name \<in> set names"
    and "svc_open_index svc index_name = None"
    and "\<not> truthy (fst (get_embedding svc 0 prompt embedding_client))"
  shows "\<exists>evs.
           chat_section svc cfg (Some pc) embedding_client uploaded index_name (Some prompt) st =
             (st\<lparr>messages := messages st @
                    [\<lparr>role = ustr_of ''user'', content = prompt\<rparr>,
                     \<lparr>role = ustr_of ''assistant'',
                      content = fst (get_answer_from_openai svc prompt [] (openai_api_key cfg))\<rparr>]\<rparr>,
              evs, None)
         \<and> query_calls evs = []
         \<and> St_warning No_context \<in> set evs
         \<and> completion_calls evs =
             [(openai_api_key cfg,
               [\<lparr>role = ustr_of ''system'', content = system_content\<rparr>,
                \<lparr>role = ustr_of ''user'', content = user_content prompt []\<rparr>])]"
proof -
  have q: "retrieve_context svc (Some pc) embedding_client uploaded index_name s prompt =
      (Inr [], [Call List_indexes, Call (Open_index index_name)] @
               snd (get_embedding svc 0 prompt embedding_client))"
    for s
    by (simp add: retrieve_context_def query_without_embedding [OF assms(5-8)])
  have c0: "completion_calls [St_markdown x] = []"
    "completion_calls [St_warning No_context] = []"
    "completion_calls [Call List_indexes, Call (Open_index index_name)] = []" for x :: ustr
    by (simp_all add: completion_calls_def)
  have q0: "query_calls [St_markdown x] = []"
    "query_calls [St_warning No_context] = []"
    "query_calls [Call List_indexes, Call (Open_index index_name)] = []" for x :: ustr
    by (simp_all add: query_calls_def)
  show ?thesis
    using assms(1-4)
    by (simp add: chat_section_def chat_handler_def q Let_def case_prod_beta
          completion_calls_append query_calls_append c0 q0 completion_calls_get_answer
          completion_calls_get_embedding query_calls_get_embedding query_calls_get_answer
          del: append_Cons append_Nil)
qed

theorem failed_question_embedding_answered_without_context_witness:
  "ustr_of ''apa?'' \<noteq> []
   \<and> openai_api_key demo_config \<noteq> [] \<and> pinecone_api_key demo_config \<noteq> []
   \<and> pinecone_environment demo_config \<noteq> []
   \<and> svc_list_indexes no_embedding_services = Inr [demo_index]
   \<and> demo_index \<in> set [demo_index]
   \<and> svc_open_index no_embedding_services demo_index = None
   \<and> \<not> truthy (fst (get_embedding no_embedding_services 0 (ustr_of ''apa?'')
                       (Some (ustr_of ''sk-1''))))
   \<and> (\<exists>evs.
         chat_section no_embedding_services demo_config (Some (ustr_of ''pc-1''))
             (Some (ustr_of ''sk-1'')) None demo_index (Some (ustr_of ''apa?'')) empty_session =
           (\<lparr>messages = [\<lparr>role = ustr_of ''user'', content = ustr_of ''apa?''\<rparr>,
                          \<lparr>role = ustr_of ''assistant'', content = ustr_of ''Jawaban''\<rparr>],
             text_cache = None\<rparr>,
            evs, None)
       \<and> query_calls evs = []
       \<and> St_warning No_context \<in> set evs
       \<and> completion_calls evs =
           [(ustr_of ''sk-1'',
             [\<lparr>role = ustr_of ''system'', content = system_content\<rparr>,
              \<lparr>role = ustr_of ''user'', content = user_content (ustr_of ''apa?'') []\<rparr>])])"
proof -
  have h1: "ustr_of ''apa?'' \<noteq> []"
    by (simp add: ustr_of_def)
  have h2: "openai_api_key demo_config \<noteq> []" and h3: "pinecone_api_key demo_config \<noteq> []"
    and h4: "pinecone_environment demo_config \<noteq> []"
    by (simp_all add: demo_config_def ustr_of_def)
  have h5: "svc_list_indexes no_embedding_services = Inr [demo_index]"
    by (simp add: no_embedding_services_def demo_services_def)
  have h6: "demo_index \<in> set [demo_index]"
    by simp
  have h7: "svc_open_index no_embedding_services demo_index = None"
    by (simp add: no_embedding_services_def demo_services_def)
  have h8: "\<not> truthy (fst (get_embedding no_embedding_services 0 (ustr_of ''apa?'')
                          (Some (ustr_of ''sk-1''))))"
    by (simp add: no_embedding_services_def demo_services_def get_embedding_def truthy_def)
  have ans: "fst (get_answer_from_openai no_embedding_services (ustr_of ''apa?'') []
                    (ustr_of ''sk-1'')) = ustr_of ''Jawaban''"
    by (simp add: no_embedding_services_def demo_services_def get_answer_from_openai_def)
  have key: "openai_api_key demo_config = ustr_of ''sk-1''"
    by (simp add: demo_config_def)
  have st: "empty_session\<lparr>messages := messages empty_session @ ms\<rparr> =
              \<lparr>messages = ms, text_cache = None\<rparr>" for ms
    by (simp add: empty_session_def)
  show ?thesis
    using failed_question_embedding_answered_without_context
            [OF h1 h2 h3 h4 h5 h6 h7 h8, of "ustr_of ''pc-1''" None empty_session]
      h1 h2 h3 h4 h5 h7 h8
    by (simp add: ans key st)
qed

text \<open>
  The retrieval never shows the message for a failed completion request.
\<close>

lemma completion_errors_append:
  "completion_errors (xs @ ys) = completion_errors xs @ completion_errors ys"
  by (simp add: completion_errors_def)

lemma completion_errors_set:
  "St_error (Completion_failed e) \<in> set evs \<longleftrightarrow> e \<in> set (completion_errors evs)"
proof (induction evs)
  case Nil
  show ?case by (simp add: completion_errors_def)
next
  case (Cons ev evs)
  have "completion_errors (ev # evs) = completion_errors [ev] @ completion_errors evs"
    by (simp add: completion_errors_def)
  moreover have "e \<in> set (completion_errors [ev]) \<longleftrightarrow> ev = St_error (Completion_failed e)"
    by (auto simp: completion_errors_def split: event.splits msg.splits)
  ultimately show ?case using Cons.IH by auto
qed

lemma completion_errors_get_embedding:
  "completion_errors (snd (get_embedding svc k t embedding_client)) = []"
  by (simp add: completion_errors_def get_embedding_def split: option.splits sum.splits)

lemma completion_errors_query_pinecone:
  "completion_errors (snd (query_pinecone svc index_name query_text top_k pc ec)) = []"
proof -
  have c0: "completion_errors [St_error Pinecone_uninit_query] = []"
    "completion_errors [Call List_indexes] = []"
    "completion_errors [Call List_indexes, St_warning (Index_not_found index_name)] = []"
    "completion_errors [Call List_indexes, Call (Open_index index_name)] = []"
    "completion_errors [Call (Index_query index_name v top_k)] = []"
    "completion_errors [Call (Index_query index_name v top_k), St_error (Query_failed e)] = []"
    for v e
    by (simp_all add: completion_errors_def)
  show ?thesis
    by (simp add: query_pinecone_def case_prod_beta completion_errors_append c0
          completion_errors_get_embedding
          split: option.splits sum.splits del: append_Cons append_Nil)
qed

lemma completion_errors_cached_context_text:
  "completion_errors (snd (cached_context_text all_lines m)) = []"
  by (simp add: cached_context_text_def completion_errors_def Let_def
        split: option.splits pyval.splits sum.splits)

lemma completion_errors_cached_steps:
  "completion_errors (concat (map snd (map (cached_context_text all_lines) ms))) = []"
  by (induction ms)
     (simp add: completion_errors_def,
      simp add: completion_errors_append completion_errors_cached_context_text)

lemma completion_errors_reconstruct_context:
  "completion_errors (snd (reconstruct_context uploaded st ms)) = []"
proof (cases "cached_text uploaded st")
  case None
  then show ?thesis
    by (simp add: reconstruct_context_def completion_errors_def)
next
  case (Some cached_file_text)
  then show ?thesis
    by (simp add: reconstruct_context_def Let_def completion_errors_cached_steps
          del: map_map)
qed

lemma completion_errors_retrieve_context:
  "completion_errors (snd (retrieve_context svc pc ec uploaded index_name st prompt)) = []"
proof (cases "query_pinecone svc index_name prompt 3 pc ec")
  case (Pair r evs)
  from completion_errors_query_pinecone [of svc index_name prompt 3 pc ec] Pair
  have evs: "completion_errors evs = []" by simp
  show ?thesis
    by (simp add: retrieve_context_def Pair case_prod_beta completion_errors_append evs
          completion_errors_reconstruct_context split: sum.splits)
qed


text \<open>
  C6. When every key is entered and the retrieval has given a context, the completion
  request for the question with that context decides the run. If it raises,
  \<^verbatim>\<open>get_answer_from_openai\<close> returns the fixed apology instead of raising, after showing
  the error message with the exception; the run ends without an exception, and the chat
  history gains the user's turn followed by the apology as the assistant's turn. If it
  answers, the first choice is returned and recorded, and the error message is not shown
  anywhere in the run: the message tells the apology of a failed request from a generated
  answer, even one with the same text.
\<close>

theorem completion_failure_gives_apology:
  assumes "prompt \<noteq> []"
    and "openai_api_key cfg \<noteq> []" "pinecone_api_key cfg \<noteq> []" "pinecone_environment cfg \<noteq> []"
    and "retrieve_context svc pinecone_client embedding_client uploaded index_name
           (st\<lparr>messages := messages st @ [\<lparr>role = ustr_of ''user'', content = prompt\<rparr>]\<rparr>)
           prompt = (Inr context, evs)"
  shows "(\<forall>e. svc_chat_completions svc (openai_api_key cfg)
              [\<lparr>role = ustr_of ''system'', content = system_content\<rparr>,
               \<lparr>role = ustr_of ''user'', content = user_content prompt context\<rparr>] = Inl e \<longrightarrow>
            get_answer_from_openai svc prompt context (openai_api_key cfg) =
              (apology,
               [Call (Chat_completions_create (openai_api_key cfg)
                  [\<lparr>role = ustr_of ''system'', content = system_content\<rparr>,
                   \<lparr>role = ustr_of ''user'', content = user_content prompt context\<rparr>]),
                St_error (Completion_failed e)])
          \<and> (\<exists>evs'.
                chat_section svc cfg pinecone_client embedding_client uploaded index_name
                    (Some prompt) st =
                  (st\<lparr>messages := messages st @
                         [\<lparr>role = ustr_of ''user'', content = prompt\<rparr>,
                          \<lparr>role = ustr_of ''assistant'', content = apology\<rparr>]\<rparr>,
                   evs', None)
              \<and> St_error (Completion_failed e) \<in> set evs'
              \<and> St_markdown apology \<in> set evs'
              \<and> completion_errors evs' = [e]))
       \<and> (\<forall>answer rest.
            svc_chat_completions svc (openai_api_key cfg)
              [\<lparr>role = ustr_of ''system'', content = system_content\<rparr>,
               \<lparr>role = ustr_of ''user'', content = user_content prompt context\<rparr>] =
              Inr (answer # rest) \<longrightarrow>
            get_answer_from_openai svc prompt context (openai_api_key cfg) =
              (answer,
               [Call (Chat_completions_create (openai_api_key cfg)
                  [\<lparr>role = ustr_of ''system'', content = system_content\<rparr>,
                   \<lparr>role = ustr_of ''user'', content = user_content prompt context\<rparr>])])
          \<and> (\<exists>evs'.
                chat_section svc cfg pinecone_client embedding_client uploaded index_name
                    (Some prompt) st =
                  (st\<lparr>messages := messages st @
                         [\<lparr>role = ustr_of ''user'', content = prompt\<rparr>,
                          \<lparr>role = ustr_of ''assistant'', content = answer\<rparr>]\<rparr>,
                   evs', None)
              \<and> completion_errors evs' = []
              \<and> (\<forall>e. St_error (Completion_failed e) \<notin> set evs')))"
proof -
  from completion_errors_retrieve_context
         [of svc pinecone_client embedding_client uploaded index_name
             "st\<lparr>messages := messages st @ [\<lparr>role = ustr_of ''user'', content = prompt\<rparr>]\<rparr>"
             prompt]
       assms(5)
  have evs: "completion_errors evs = []" by simp
  have c0: "completion_errors ([] :: 'a event list) = []"
    "completion_errors [St_markdown x] = []"
    "completion_errors [St_warning No_context] = []"
    "completion_errors [Call c] = []"
    "completion_errors [Call c, St_error (Completion_failed e)] = [e]"
    for x :: ustr and c :: "'a call" and e
    by (simp_all add: completion_errors_def)
  have none: "(\<forall>e. St_error (Completion_failed e) \<notin> set xs) \<longleftrightarrow> completion_errors xs = []"
    for xs :: "'a event list"
    by (auto simp: completion_errors_set)
  show ?thesis
    using assms
    by (simp add: chat_section_def chat_handler_def Let_def get_answer_from_openai_def none
          completion_errors_append evs c0 del: append_Cons append_Nil)
qed

theorem completion_failure_gives_apology_witness:
  "ustr_of ''apa?'' \<noteq> []
   \<and> openai_api_key demo_config \<noteq> [] \<and> pinecone_api_key demo_config \<noteq> []
   \<and> pinecone_environment demo_config \<noteq> []
   \<and> retrieve_context no_completion_services (Some (ustr_of ''pc-1'')) (Some (ustr_of ''sk-1''))
         None demo_index
         (empty_session\<lparr>messages := messages empty_session @
            [\<lparr>role = ustr_of ''user'', content = ustr_of ''apa?''\<rparr>]\<rparr>)
         (ustr_of ''apa?'') =
       (Inr [], [Call List_indexes, Call (Open_index demo_index),
                 Call (Embeddings_create (ustr_of ''apa?'')),
                 Call (Index_query demo_index [1, 2, 3] 3)])
   \<and> svc_chat_completions no_completion_services (openai_api_key demo_config)
         [\<lparr>role = ustr_of ''system'', content = system_content\<rparr>,
          \<lparr>role = ustr_of ''user'', content = user_content (ustr_of ''apa?'') []\<rparr>] =
       Inl (ServiceError (ustr_of ''timeout''))
   \<and> get_answer_from_openai no_completion_services (ustr_of ''apa?'') []
         (openai_api_key demo_config) =
       (apology,
        [Call (Chat_completions_create (openai_api_key demo_config)
           [\<lparr>role = ustr_of ''system'', content = system_content\<rparr>,
            \<lparr>role = ustr_of ''user'', content = user_content (ustr_of ''apa?'') []\<rparr>]),
         St_error (Completion_failed (ServiceError (ustr_of ''timeout'')))])
   \<and> (\<exists>evs'.
         chat_section no_completion_services demo_config (Some (ustr_of ''pc-1''))
             (Some (ustr_of ''sk-1'')) None demo_index (Some (ustr_of ''apa?'')) empty_session =
           (empty_session\<lparr>messages := messages empty_session @
              [\<lparr>role = ustr_of ''user'', content = ustr_of ''apa?''\<rparr>,
               \<lparr>role = ustr_of ''assistant'', content = apology\<rparr>]\<rparr>,
            evs', None)
       \<and> St_error (Completion_failed (ServiceError (ustr_of ''timeout''))) \<in> set evs'
       \<and> St_markdown apology \<in> set evs'
       \<and> completion_errors evs' = [ServiceError (ustr_of ''timeout'')])
   \<and> retrieve_context demo_services (Some (ustr_of ''pc-1'')) (Some (ustr_of ''sk-1''))
         None demo_index
         (empty_session\<lparr>messages := messages empty_session @
            [\<lparr>role = ustr_of ''user'', content = ustr_of ''apa?''\<rparr>]\<rparr>)
         (ustr_of ''apa?'') =
       (Inr [], [Call List_indexes, Call (Open_index demo_index),
                 Call (Embeddings_create (ustr_of ''apa?'')),
                 Call (Index_query demo_index [1, 2, 3] 3)])
   \<and> svc_chat_completions demo_services (openai_api_key demo_config)
         [\<lparr>role = ustr_of ''system'', content = system_content\<rparr>,
          \<lparr>role = ustr_of ''user'', content = user_content (ustr_of ''apa?'') []\<rparr>] =
       Inr [ustr_of ''Jawaban'']
   \<and> get_answer_from_openai demo_services (ustr_of ''apa?'') []
         (openai_api_key demo_config) =
       (ustr_of ''Jawaban'',
        [Call (Chat_completions_create (openai_api_key demo_config)
           [\<lparr>role = ustr_of ''system'', content = system_content\<rparr>,
            \<lparr>role = ustr_of ''user'', content = user_content (ustr_of ''apa?'') []\<rparr>])])
   \<and> (\<exists>evs'.
         chat_section demo_services demo_config (Some (ustr_of ''pc-1''))
             (Some (ustr_of ''sk-1'')) None demo_index (Some (ustr_of ''apa?'')) empty_session =
           (empty_session\<lparr>messages := messages empty_session @
              [\<lparr>role = ustr_of ''user'', content = ustr_of ''apa?''\<rparr>,
               \<lparr>role = ustr_of ''assistant'', content = ustr_of ''Jawaban''\<rparr>]\<rparr>,
            evs', None)
       \<and> completion_errors evs' = []
       \<and> (\<forall>e. St_error (Completion_failed e) \<notin> set evs'))"
proof -
  have h1: "ustr_of ''apa?'' \<noteq> []"
    by (simp add: ustr_of_def)
  have h2: "openai_api_key demo_config \<noteq> []" and h3: "pinecone_api_key demo_config \<noteq> []"
    and h4: "pinecone_environment demo_config \<noteq> []"
    by (simp_all add: demo_config_def ustr_of_def)
  have h5: "retrieve_context no_completion_services (Some (ustr_of ''pc-1''))
         (Some (ustr_of ''sk-1'')) None demo_index
         (empty_session\<lparr>messages := messages empty_session @
            [\<lparr>role = ustr_of ''user'', content = ustr_of ''apa?''\<rparr>]\<rparr>)
         (ustr_of ''apa?'') =
       (Inr [], [Call List_indexes, Call (Open_index demo_index),
                 Call (Embeddings_create (ustr_of ''apa?'')),
                 Call (Index_query demo_index [1, 2, 3] 3)])"
    by (simp add: run_defs)
  have h6: "svc_chat_completions no_completion_services (openai_api_key demo_config)
         [\<lparr>role = ustr_of ''system'', content = system_content\<rparr>,
          \<lparr>role = ustr_of ''user'', content = user_content (ustr_of ''apa?'') []\<rparr>] =
       Inl (ServiceError (ustr_of ''timeout''))"
    by (simp add: no_completion_services_def demo_services_def)
  have g5: "retrieve_context demo_services (Some (ustr_of ''pc-1''))
         (Some (ustr_of ''sk-1'')) None demo_index
         (empty_session\<lparr>messages := messages empty_session @
            [\<lparr>role = ustr_of ''user'', content = ustr_of ''apa?''\<rparr>]\<rparr>)
         (ustr_of ''apa?'') =
       (Inr [], [Call List_indexes, Call (Open_index demo_index),
                 Call (Embeddings_create (ustr_of ''apa?'')),
                 Call (Index_query demo_index [1, 2, 3] 3)])"
    by (simp add: run_defs)
  have g6: "svc_chat_completions demo_services (openai_api_key demo_config)
         [\<lparr>role = ustr_of ''system'', content = system_content\<rparr>,
          \<lparr>role = ustr_of ''user'', content = user_content (ustr_of ''apa?'') []\<rparr>] =
       Inr [ustr_of ''Jawaban'']"
    by (simp add: demo_services_def)
  note failing =
    conjunct1 [OF completion_failure_gives_apology [OF h1 h2 h3 h4 h5], rule_format, OF h6]
  note answering =
    conjunct2 [OF completion_failure_gives_apology [OF h1 h2 h3 h4 g5], rule_format, OF g6]
  show ?thesis
    by (intro conjI h1 h2 h3 h4 h5 h6 g5 g6 conjunct1 [OF failing] conjunct2 [OF failing]
          conjunct1 [OF answering] conjunct2 [OF answering])
qed

text \<open>
  C10. When a question is submitted while one of the three configuration values is
  empty, the run appends the user's turn to the chat history and nothing else: the
  history gains exactly one entry, the error about the configuration is shown, and no
  service is called.
\<close>

theorem missing_config_user_turn_only:
  "prompt \<noteq> [] \<Longrightarrow>
   openai_api_key cfg = [] \<or> pinecone_api_key cfg = [] \<or> pinecone_environment cfg = [] \<Longrightarrow>
   chat_section svc cfg pinecone_client embedding_client uploaded index_name (Some prompt) st =
     (st\<lparr>messages := messages st @ [\<lparr>role = ustr_of ''user'', content = prompt\<rparr>]\<rparr>,
      [St_markdown prompt, St_error Missing_config], None)
   \<and> length (messages (fst (chat_section svc cfg pinecone_client embedding_client uploaded
                               index_name (Some prompt) st))) =
     length (messages st) + 1"
  by (auto simp: chat_section_def chat_handler_def Let_def)

theorem missing_config_user_turn_only_witness:
  "ustr_of ''apa?'' \<noteq> []
   \<and> (openai_api_key (demo_config\<lparr>pinecone_api_key := []\<rparr>) = []
      \<or> pinecone_api_key (demo_config\<lparr>pinecone_api_key := []\<rparr>) = []
      \<or> pinecone_environment (demo_config\<lparr>pinecone_api_key := []\<rparr>) = [])
   \<and> chat_section demo_services (demo_config\<lparr>pinecone_api_key := []\<rparr>) None
         (Some (ustr_of ''sk-1'')) None demo_index (Some (ustr_of ''apa?'')) empty_session =
       (\<lparr>messages = [\<lparr>role = ustr_of ''user'', content = ustr_of ''apa?''\<rparr>],
         text_cache = None\<rparr>,
        [St_markdown (ustr_of ''apa?''), St_error Missing_config], None)"
proof -
  have h1: "ustr_of ''apa?'' \<noteq> []"
    by (simp add: ustr_of_def)
  have h2: "openai_api_key (demo_config\<lparr>pinecone_api_key := []\<rparr>) = []
      \<or> pinecone_api_key (demo_config\<lparr>pinecone_api_key := []\<rparr>) = []
      \<or> pinecone_environment (demo_config\<lparr>pinecone_api_key := []\<rparr>) = []"
    by simp
  show ?thesis
    using missing_config_user_turn_only [OF h1 h2, of demo_services None
        "Some (ustr_of ''sk-1'')" None demo_index empty_session] h1
    by (simp add: empty_session_def)
qed

end
